theory Spec2Isabelle
  imports Complex_Main "HOL-Library.Sublist" "HOL-Library.AList"
begin

section \<open>Strings and numbers of the host language\<close>

text \<open>
  The program is TypeScript. Its strings are modelled as \<open>string\<close>, its page numbers and
  counters as \<open>nat\<close>. The few library operations the code relies on (decimal rendering of a
  number in a template literal, digit classes of regular expressions) are written out here.
\<close>

definition is_digit :: "char \<Rightarrow> bool" where
  \<comment> \<open>The character class \<open>\d\<close>.\<close>
  "is_digit c = (c \<in> set ''0123456789'')"

definition digit_char :: "nat \<Rightarrow> char" where
  "digit_char d = ''0123456789'' ! d"

fun nat_to_string :: "nat \<Rightarrow> string" where
  \<comment> \<open>\<open>`${n}`\<close> for a non-negative integer \<open>n\<close>.\<close>
  "nat_to_string n =
     (if n < 10 then [digit_char n] else nat_to_string (n div 10) @ [digit_char (n mod 10)])"

declare nat_to_string.simps [simp del]

section \<open>Page controller: the next-page address\<close>

text \<open>
  \<^verbatim>\<open>
  export function buildNextPageUrl(searchUrl: string, nextPage: number): string {
    const withoutPage = searchUrl.replace(/\d+_p\//, "");
    return withoutPage.replace(/\/$/, `/${nextPage}_p/`);
  }
  \<close>
  Both calls of \<open>replace\<close> take a regular expression without the global flag, so each
  rewrites the leftmost match only. At a given position \<open>\d+_p\/\<close> matches exactly when
  the maximal run of digits starting there is non-empty and is followed by \<open>_p/\<close>
  (a shorter run is followed by a digit, never by the underscore).
\<close>

definition page_seg_here :: "string \<Rightarrow> string option" where
  \<comment> \<open>If \<open>\d+_p\/\<close> matches at the start of \<open>s\<close>: what follows the match.\<close>
  "page_seg_here s =
     (let ds = takeWhile is_digit s; r = dropWhile is_digit s
      in if ds \<noteq> [] \<and> take 3 r = ''_p/'' then Some (drop 3 r) else None)"

fun strip_page :: "string \<Rightarrow> string" where
  \<comment> \<open>\<open>s.replace(/\d+_p\//, "")\<close>\<close>
  "strip_page [] = []"
| "strip_page (c # s) =
     (case page_seg_here (c # s) of Some r \<Rightarrow> r | None \<Rightarrow> c # strip_page s)"


definition replace_trailing_slash :: "string \<Rightarrow> string \<Rightarrow> string" where
  \<comment> \<open>\<open>s.replace(/\/$/, r)\<close>: without the multiline flag \<open>$\<close> is the end of the input.\<close>
  "replace_trailing_slash s r = (if s \<noteq> [] \<and> last s = CHR ''/'' then butlast s @ r else s)"

definition buildNextPageUrl :: "string \<Rightarrow> nat \<Rightarrow> string" where
  "buildNextPageUrl searchUrl nextPage =
     (let withoutPage = strip_page searchUrl
      in replace_trailing_slash withoutPage (''/'' @ nat_to_string nextPage @ ''_p/''))"


section \<open>Page controller: reference discovery\<close>

text \<open>
  \<open>url.match(/(\d+)_zpid/)?.[1]\<close>: the leftmost run of digits that is directly followed by
  \<open>_zpid\<close>. As for \<open>\d+_p\/\<close>, the match at a position takes the maximal run of digits there.
\<close>

definition zpid_here :: "string \<Rightarrow> string option" where
  "zpid_here s =
     (let ds = takeWhile is_digit s; r = dropWhile is_digit s
      in if ds \<noteq> [] \<and> take 5 r = ''_zpid'' then Some ds else None)"

fun find_zpid :: "string \<Rightarrow> string option" where
  "find_zpid [] = None"
| "find_zpid (c # s) = (case zpid_here (c # s) of Some z \<Rightarrow> Some z | None \<Rightarrow> find_zpid s)"

definition dedup_key :: "string \<Rightarrow> string" where
  \<comment> \<open>\<open>const key = zpid || url;\<close>\<close>
  "dedup_key u = (case find_zpid u of Some z \<Rightarrow> (if z \<noteq> [] then z else u) | None \<Rightarrow> u)"

definition strip_query :: "string \<Rightarrow> string" where
  \<comment> \<open>\<open>url.split("?")[0]\<close>\<close>
  "strip_query u = takeWhile (\<lambda>c. c \<noteq> CHR ''?'') u"

text \<open>
  \<open>extractUrlsFromPageData\<close> scans text with
  \<open>/\/homedetails\/[^"?]+_zpid\//g\<close> (strategy 1) and \<open>/\/homedetails\/[^"'\\?]+_zpid\//g\<close>
  (strategy 2). At a position where \<open>/homedetails/\<close> stands, the class takes the maximal run
  of admitted characters and gives back as few as needed for \<open>_zpid/\<close> to follow: the
  match ends with the last \<open>_zpid/\<close> of the run. \<open>matchAll\<close> resumes after each match.
\<close>

definition listing_path_here :: "string \<Rightarrow> string \<Rightarrow> nat option" where
  \<comment> \<open>If the expression, with \<open>excl\<close> the characters its class excludes, matches at the
      start of \<open>s\<close>: the length of the match.\<close>
  "listing_path_here excl s =
     (if take 13 s = ''/homedetails/''
      then (let run = takeWhile (\<lambda>c. c \<notin> set excl) (drop 13 s);
                ks = filter (\<lambda>k. take 6 (drop k run) = ''_zpid/'') [1..<length run]
            in if ks = [] then None else Some (13 + last ks + 6))
      else None)"

function match_all :: "string \<Rightarrow> string \<Rightarrow> string list" where
  \<comment> \<open>\<open>text.matchAll(...)\<close>: the matched texts, in order.\<close>
  "match_all excl [] = []"
| "match_all excl (c # s) =
     (case listing_path_here excl (c # s) of
        Some n \<Rightarrow> take n (c # s) # match_all excl (drop (n - 1) s)
      | None \<Rightarrow> match_all excl s)"
  by pat_completeness auto
termination
  by (relation "measure (\<lambda>(excl, s). length s)") auto

fun includes_str :: "string \<Rightarrow> string \<Rightarrow> bool" where
  \<comment> \<open>\<open>text.includes(p)\<close>\<close>
  "includes_str p [] = (p = [])"
| "includes_str p (c # s) = (take (length p) (c # s) = p \<or> includes_str p s)"

record page_data =
  next_data_text :: "string option"
    \<comment> \<open>\<open>JSON.stringify(JSON.parse(script.textContent || "{}"))\<close> for the script
        \<open>#__NEXT_DATA__\<close>; \<open>None\<close> when there is no such script or its text does not parse
        (the \<open>catch {}\<close> of strategy 1).\<close>
  script_texts :: "string list"
    \<comment> \<open>\<open>script.textContent || ""\<close> of every script tag, in document order\<close>

definition add_match :: "string list \<times> string list \<Rightarrow> string \<Rightarrow> string list \<times> string list" where
  \<comment> \<open>The body of both \<open>for (const m of matches)\<close> loops; the state is \<open>(seen, urls)\<close>.\<close>
  "add_match st m =
     (case st of (seen, urls) \<Rightarrow>
        (let url = ''https://www.zillow.com'' @ m in
         case find_zpid m of
           Some zpid \<Rightarrow> (if zpid \<noteq> [] \<and> zpid \<notin> set seen then (seen @ [zpid], urls @ [url])
                         else (seen, urls))
         | None \<Rightarrow> (seen, urls)))"

definition scan_script :: "string list \<times> string list \<Rightarrow> string \<Rightarrow> string list \<times> string list" where
  \<comment> \<open>The body of \<open>for (const script of scripts)\<close>. The class excludes the double quote,
      the single quote, the backslash and the question mark.\<close>
  "scan_script st text =
     (if includes_str ''/homedetails/'' text \<and> includes_str ''_zpid'' text
      then foldl add_match st (match_all [CHR 0x22, CHR 0x27, CHR 0x5C, CHR ''?''] text)
      else st)"

definition extractUrlsFromPageData :: "page_data \<Rightarrow> string list" where
  "extractUrlsFromPageData pd =
     (let s1 = (case next_data_text pd of
                  Some str \<Rightarrow> foldl add_match ([], []) (match_all [CHR 0x22, CHR ''?''] str)
                | None \<Rightarrow> ([], []))
      in if snd s1 = []
         then snd (foldl scan_script s1 (script_texts pd))
         else snd s1)"

record page_snapshot =
  embedded :: page_data
  dom_links :: "string list"
    \<comment> \<open>The \<open>href\<close> of every \<open>a[href*="/homedetails/"]\<close>, in document order, after scrolling.\<close>

definition addUrl :: "string list \<times> string list \<Rightarrow> string \<Rightarrow> string list \<times> string list" where
  \<comment> \<open>The closure \<open>addUrl\<close>; the state is \<open>(seen, allUrls)\<close>.\<close>
  "addUrl st u =
     (case st of (seen, allUrls) \<Rightarrow>
        (let key = dedup_key u in
         if key \<notin> set seen then (seen @ [key], allUrls @ [strip_query u]) else (seen, allUrls)))"

definition extractListingUrls :: "page_snapshot \<Rightarrow> string list" where
  "extractListingUrls snap =
     (let jsonUrls = extractUrlsFromPageData (embedded snap);
          s1 = foldl addUrl ([], []) jsonUrls;
          domUrls = dom_links snap
      in snd (foldl addUrl s1 domUrls))"

text \<open>
  \<open>goToNextPage\<close> drives a page. What the page does is the environment: whether the
  navigation, the title query and the reload resolve or reject, and what the page shows at
  each discovery (\<open>None\<close> when a \<open>page.evaluate\<close> of the discovery rejects). The actions
  performed on the page are returned with the result.
\<close>

datatype page_action = Goto string | Discover | Reload

record next_page_env =
  goto_ok :: bool
  first_view :: "page_snapshot option"
  title_ok :: bool
  reload_ok :: bool
  second_view :: "page_snapshot option"

definition goToNextPage :: "next_page_env \<Rightarrow> string \<Rightarrow> bool \<times> page_action list" where
  "goToNextPage env targetUrl =
     (if \<not> goto_ok env then (False, [Goto targetUrl])
      else case first_view env of
        None \<Rightarrow> (False, [Goto targetUrl, Discover])
      | Some v1 \<Rightarrow>
          (let urls = extractListingUrls v1 in
           if length urls > 0 then (True, [Goto targetUrl, Discover])
           else if \<not> title_ok env then (False, [Goto targetUrl, Discover])
           else if \<not> reload_ok env then (False, [Goto targetUrl, Discover, Reload])
           else case second_view env of
             None \<Rightarrow> (False, [Goto targetUrl, Discover, Reload, Discover])
           | Some v2 \<Rightarrow>
               (let retryUrls = extractListingUrls v2 in
                if length retryUrls > 0
                then (True, [Goto targetUrl, Discover, Reload, Discover])
                else (False, [Goto targetUrl, Discover, Reload, Discover]))))"


section \<open>Values of the embedded JSON payload\<close>

text \<open>
  The payload is untyped in the source (\<open>Record<string, unknown>\<close>), so it is modelled as a
  JSON value; \<open>undefined\<close>, the value of a missing property, is a value of its own. Objects are
  association lists with distinct keys. Numbers are exact rationals: the rounding error of
  IEEE doubles is not part of this development.
\<close>

datatype json =
    JUndefined
  | JNull
  | JBool bool
  | JNum rat
  | JStr string
  | JArr "json list"
  | JObj "(string \<times> json) list"

definition get :: "json \<Rightarrow> string \<Rightarrow> json" where
  \<comment> \<open>Property access \<open>o.k\<close>, \<open>o?.k\<close>, \<open>o[k]\<close> on a value that is not null or undefined; also
      \<open>o?.k\<close> on those. None of the keys read by the program is a built-in property of a
      string or an array.\<close>
  "get j k = (case j of JObj kvs \<Rightarrow> (case map_of kvs k of Some v \<Rightarrow> v | None \<Rightarrow> JUndefined)
              | _ \<Rightarrow> JUndefined)"

fun truthy :: "json \<Rightarrow> bool" where
  "truthy JUndefined = False"
| "truthy JNull = False"
| "truthy (JBool b) = b"
| "truthy (JNum r) = (r \<noteq> 0)"
| "truthy (JStr s) = (s \<noteq> [])"
| "truthy (JArr xs) = True"
| "truthy (JObj kvs) = True"

definition nullish :: "json \<Rightarrow> bool" where
  \<comment> \<open>\<open>x == null\<close>; the source tests \<open>x != null\<close>.\<close>
  "nullish j = (j = JNull \<or> j = JUndefined)"

fun is_object :: "json \<Rightarrow> bool" where
  \<comment> \<open>\<open>typeof x === "object"\<close> for a truthy \<open>x\<close>.\<close>
  "is_object (JArr xs) = True"
| "is_object (JObj kvs) = True"
| "is_object _ = False"

fun join_with :: "string \<Rightarrow> string list \<Rightarrow> string" where
  "join_with sep [] = []"
| "join_with sep [x] = x"
| "join_with sep (x # y # ys) = x @ sep @ join_with sep (y # ys)"

fun frac_digits :: "nat \<Rightarrow> rat \<Rightarrow> string" where
  "frac_digits 0 f = []"
| "frac_digits (Suc k) f =
     (if f = 0 then []
      else (let d = nat \<lfloor>f * 10\<rfloor> in digit_char d # frac_digits k (f * 10 - of_nat d)))"

definition num_to_string :: "rat \<Rightarrow> string" where
  \<comment> \<open>\<open>String(x)\<close> for a number: exact for integers; a fraction is written out to at most 17
      decimal places (the exponent notation of very large and very small numbers is not
      modelled).\<close>
  "num_to_string r =
     (let a = \<bar>r\<bar>; ip = nat \<lfloor>a\<rfloor>; f = a - of_nat ip
      in (if r < 0 then ''-'' else []) @ nat_to_string ip
         @ (if f = 0 then [] else ''.'' @ frac_digits 17 f))"

fun to_str :: "json \<Rightarrow> string" where
  \<comment> \<open>\<open>String(x)\<close> and \<open>`${x}`\<close>\<close>
  "to_str JUndefined = ''undefined''"
| "to_str JNull = ''null''"
| "to_str (JBool b) = (if b then ''true'' else ''false'')"
| "to_str (JNum r) = num_to_string r"
| "to_str (JStr s) = s"
| "to_str (JArr xs) =
     join_with '','' (map (\<lambda>x. if x = JNull \<or> x = JUndefined then [] else to_str x) xs)"
| "to_str (JObj kvs) = ''[object Object]''"

definition array_join :: "string \<Rightarrow> json list \<Rightarrow> string" where
  \<comment> \<open>\<open>xs.join(sep)\<close>: null and undefined elements are written as the empty string.\<close>
  "array_join sep xs =
     join_with sep (map (\<lambda>x. if x = JNull \<or> x = JUndefined then [] else to_str x) xs)"

text \<open>
  Numbers in arithmetic. \<open>None\<close> is NaN. Only numbers, booleans, null and strings of decimal
  digits are converted; the conversion of any other string, of arrays and of objects is
  outside this development and yields NaN here. The source's casts declare every operand
  a number.
\<close>

definition digit_val :: "char \<Rightarrow> nat" where
  "digit_val c = length (takeWhile (\<lambda>d. d \<noteq> c) ''0123456789'')"

definition to_number :: "json \<Rightarrow> rat option" where
  "to_number j =
     (case j of
        JNum r \<Rightarrow> Some r
      | JBool b \<Rightarrow> Some (if b then 1 else 0)
      | JNull \<Rightarrow> Some 0
      | JStr s \<Rightarrow> (if list_all is_digit s
                   then Some (of_nat (foldl (\<lambda>n c. 10 * n + digit_val c) 0 s)) else None)
      | _ \<Rightarrow> None)"

definition num2 :: "(rat \<Rightarrow> rat \<Rightarrow> rat) \<Rightarrow> rat option \<Rightarrow> rat option \<Rightarrow> rat option" where
  "num2 f a b = (case a of None \<Rightarrow> None | Some x \<Rightarrow> (case b of None \<Rightarrow> None | Some y \<Rightarrow> Some (f x y)))"

definition math_round :: "rat option \<Rightarrow> rat option" where
  \<comment> \<open>\<open>Math.round\<close>: to the nearest integer, a half towards \<open>+\<infinity>\<close>.\<close>
  "math_round a = (case a of None \<Rightarrow> None | Some x \<Rightarrow> Some (of_int \<lfloor>x + 1 / 2\<rfloor>))"

definition pad3 :: "nat \<Rightarrow> string" where
  "pad3 n = [digit_char (n div 100 mod 10), digit_char (n div 10 mod 10), digit_char (n mod 10)]"

fun group_thousands :: "nat \<Rightarrow> string" where
  "group_thousands n =
     (if n < 1000 then nat_to_string n
      else group_thousands (n div 1000) @ '','' @ pad3 (n mod 1000))"

declare group_thousands.simps [simp del]

definition toLocaleString :: "rat option \<Rightarrow> string" where
  \<comment> \<open>\<open>x.toLocaleString()\<close> in the locale \<open>en-US\<close>, the one of the specification's examples:
      groups of three digits separated by commas, at most three fraction digits.\<close>
  "toLocaleString a =
     (case a of
        None \<Rightarrow> ''NaN''
      | Some x \<Rightarrow>
          (let m = nat \<lfloor>\<bar>x\<bar> * 1000 + 1 / 2\<rfloor>;
               fp = rev (dropWhile (\<lambda>c. c = CHR ''0'') (rev (pad3 (m mod 1000))))
           in (if x < 0 then ''-'' else []) @ group_thousands (m div 1000)
              @ (if fp = [] then [] else ''.'' @ fp)))"

definition money :: "json \<Rightarrow> json" where
  \<comment> \<open>\<open>v != null ? `$${Number(v).toLocaleString()}` : null\<close>\<close>
  "money v = (if \<not> nullish v then JStr (''$'' @ toLocaleString (to_number v)) else JNull)"

definition or_null :: "json \<Rightarrow> json" where
  \<comment> \<open>\<open>v || null\<close>\<close>
  "or_null v = (if truthy v then v else JNull)"

section \<open>Listing worker: extraction from the structured payload (Tier 1)\<close>

text \<open>
  \<open>JSON.parse\<close> is a parameter \<open>parse\<close> of the model; \<open>None\<close> is a \<open>SyntaxError\<close>.
\<close>

definition object_values :: "json \<Rightarrow> json list" where
  \<comment> \<open>\<open>Object.values\<close>\<close>
  "object_values j =
     (case j of JObj kvs \<Rightarrow> map snd kvs | JArr xs \<Rightarrow> xs | JStr s \<Rightarrow> map (\<lambda>c. JStr [c]) s
      | _ \<Rightarrow> [])"

fun findPropertyInCache :: "(string \<Rightarrow> json option) \<Rightarrow> json list \<Rightarrow> json" where
  \<comment> \<open>The loop over \<open>Object.values(cache)\<close>; a value that does not parse is passed over.\<close>
  "findPropertyInCache parse [] = JNull"
| "findPropertyInCache parse (v # vs) =
     (case (case v of JStr s \<Rightarrow> parse s | _ \<Rightarrow> Some v) of
        None \<Rightarrow> findPropertyInCache parse vs
      | Some entry \<Rightarrow>
          (let prop = get entry ''property''
           in if truthy prop \<and> is_object prop then prop else findPropertyInCache parse vs))"

definition resolveCache :: "(string \<Rightarrow> json option) \<Rightarrow> json \<Rightarrow> json" where
  "resolveCache parse raw =
     (if \<not> truthy raw then JNull
      else case raw of
        JStr s \<Rightarrow> (case parse s of Some j \<Rightarrow> j | None \<Rightarrow> JNull)
      | JArr xs \<Rightarrow> raw
      | JObj kvs \<Rightarrow> raw
      | _ \<Rightarrow> JNull)"

definition from_cache :: "(string \<Rightarrow> json option) \<Rightarrow> json \<Rightarrow> json \<Rightarrow> json" where
  \<comment> \<open>Strategies 1 and 2:
      \<open>if (!property && holder?.gdpClientCache) { const cache = resolveCache(...); if (cache) property = findPropertyInCache(cache); }\<close>\<close>
  "from_cache parse holder property =
     (if \<not> truthy property \<and> truthy (get holder ''gdpClientCache'')
      then (let cache = resolveCache parse (get holder ''gdpClientCache'')
            in if truthy cache then findPropertyInCache parse (object_values cache) else property)
      else property)"

definition find_property :: "(string \<Rightarrow> json option) \<Rightarrow> json \<Rightarrow> json" where
  "find_property parse nextData =
     (let props = get nextData ''props'';
          pageProps = get props ''pageProps'';
          componentProps = get pageProps ''componentProps'';
          property1 = from_cache parse componentProps JNull;
          property2 = from_cache parse pageProps property1
      in if \<not> truthy property2
         then (let initialData = get pageProps ''initialData''
               in if truthy (get initialData ''property'') then get initialData ''property''
                  else property2)
         else property2)"

type_synonym listing = "(string \<times> json) list"

definition field :: "listing \<Rightarrow> string \<Rightarrow> json" where
  \<comment> \<open>\<open>result[k]\<close>\<close>
  "field r k = (case map_of r k of Some v \<Rightarrow> v | None \<Rightarrow> JUndefined)"

definition set_field :: "string \<Rightarrow> json \<Rightarrow> listing \<Rightarrow> listing" where
  \<comment> \<open>\<open>result[k] = v\<close>: a present key keeps its place, a new one goes last.\<close>
  "set_field k v r = AList.update k v r"

definition address_of :: "json \<Rightarrow> json" where
  "address_of property =
     (let addr = get property ''address''
      in if truthy addr
         then (let parts = filter truthy [get addr ''streetAddress'', get addr ''city'',
                                          get addr ''state'', get addr ''zipcode''];
                   joined = array_join '', '' parts
               in if joined \<noteq> [] then JStr joined else JNull)
         else JNull)"

definition estimated_sales_range :: "json \<Rightarrow> json" where
  "estimated_sales_range property =
     (let zestimateLow = get property ''zestimateLowPercent'';
          zestimateHigh = get property ''zestimateHighPercent'';
          zestimateVal = get property ''zestimate''
      in if truthy zestimateVal \<and> \<not> nullish zestimateLow \<and> \<not> nullish zestimateHigh
         then (let low = math_round (num2 (*) (to_number zestimateVal)
                           (num2 (-) (Some 1) (num2 (/) (to_number zestimateLow) (Some 100))));
                   high = math_round (num2 (*) (to_number zestimateVal)
                           (num2 (+) (Some 1) (num2 (/) (to_number zestimateHigh) (Some 100))))
               in JStr (''$'' @ toLocaleString low @ '' - $'' @ toLocaleString high))
         else JNull)"

subsection \<open>Facts\<close>

definition assign_if :: "listing \<Rightarrow> bool \<times> string \<times> json \<Rightarrow> listing" where
  \<comment> \<open>\<open>if (c) result.k = v;\<close>\<close>
  "assign_if r a = (case a of (c, k, v) \<Rightarrow> if c then set_field k v r else r)"

definition basic_facts :: "json \<Rightarrow> listing \<Rightarrow> listing" where
  \<comment> \<open>The sections \<open>Basic facts\<close> and \<open>Heating / Cooling\<close>: the conditional assignments in
      the order of the source.\<close>
  "basic_facts property r0 =
     foldl assign_if r0
       [(\<not> nullish (get property ''bedrooms''),
           ''fact_bedrooms'', JStr (to_str (get property ''bedrooms''))),
        (\<not> nullish (get property ''bathrooms''),
           ''fact_bathrooms'', JStr (to_str (get property ''bathrooms''))),
        (\<not> nullish (get property ''livingArea''),
           ''fact_living_area'', JStr (to_str (get property ''livingArea'') @ '' sqft'')),
        (\<not> nullish (get property ''lotSize''),
           ''fact_lot_size'', JStr (to_str (get property ''lotSize'') @ '' sqft'')),
        (\<not> nullish (get property ''lotAreaValue'') \<and> \<not> nullish (get property ''lotAreaUnits''),
           ''fact_lot_size'',
           JStr (to_str (get property ''lotAreaValue'') @ '' ''
                 @ to_str (get property ''lotAreaUnits''))),
        (\<not> nullish (get property ''yearBuilt''),
           ''fact_year_built'', JStr (to_str (get property ''yearBuilt''))),
        (truthy (get property ''homeType''),
           ''fact_type'', JStr (to_str (get property ''homeType''))),
        (truthy (get property ''homeStatus''),
           ''fact_status'', JStr (to_str (get property ''homeStatus''))),
        (\<not> nullish (get property ''parkingCapacity''),
           ''fact_parking'', JStr (to_str (get property ''parkingCapacity''))),
        (truthy (get property ''heatingSystem''),
           ''fact_heating'', JStr (to_str (get property ''heatingSystem''))),
        (truthy (get property ''coolingSystem''),
           ''fact_cooling'', JStr (to_str (get property ''coolingSystem'')))]"

definition factMappings :: "(string \<times> string) list" where
  "factMappings =
     [(''atAGlanceFacts'', []),
      (''bedrooms'', ''bedrooms''),
      (''bathrooms'', ''bathrooms''),
      (''bathroomsFull'', ''bathrooms_full''),
      (''bathroomsHalf'', ''bathrooms_half''),
      (''livingArea'', ''living_area''),
      (''stories'', ''stories''),
      (''homeType'', ''type''),
      (''yearBuilt'', ''year_built''),
      (''heating'', ''heating''),
      (''cooling'', ''cooling''),
      (''parking'', ''parking''),
      (''parkingCapacity'', ''parking_capacity''),
      (''garageSpaces'', ''garage_spaces''),
      (''hasGarage'', ''has_garage''),
      (''laundryFeatures'', ''laundry''),
      (''appliances'', ''appliances''),
      (''flooring'', ''flooring''),
      (''basement'', ''basement''),
      (''roofType'', ''roof''),
      (''exteriorFeatures'', ''exterior_features''),
      (''constructionMaterials'', ''construction''),
      (''foundationDetails'', ''foundation''),
      (''sewer'', ''sewer''),
      (''waterSource'', ''water_source''),
      (''architecturalStyle'', ''architectural_style''),
      (''communityFeatures'', ''community_features''),
      (''associationFee'', ''hoa_fee''),
      (''associationFeeFrequency'', ''hoa_frequency'')]"

definition reso_step :: "json \<Rightarrow> listing \<Rightarrow> string \<times> string \<Rightarrow> listing" where
  \<comment> \<open>The body of \<open>for (const [jsonKey, factKey] of Object.entries(factMappings))\<close>.\<close>
  "reso_step resoFacts r e =
     (case e of (jsonKey, factKey) \<Rightarrow>
        if jsonKey = ''atAGlanceFacts'' then r
        else (let val = get resoFacts jsonKey in
              if \<not> nullish val \<and> val \<noteq> JStr [] \<and> val \<noteq> JStr ''None''
              then (let strVal = (case val of JArr xs \<Rightarrow> array_join '', '' xs | _ \<Rightarrow> to_str val)
                    in if \<not> truthy (field r (''fact_'' @ factKey))
                       then set_field (''fact_'' @ factKey) (JStr strVal) r
                       else r)
              else r))"

definition reso_pass :: "json \<Rightarrow> listing \<Rightarrow> listing" where
  "reso_pass resoFacts r = foldl (reso_step resoFacts) r factMappings"

definition is_space :: "char \<Rightarrow> bool" where
  \<comment> \<open>The class \<open>\s\<close> and the characters removed by \<open>trim\<close>, among the 8-bit characters:
      tab, line feed, vertical tab, form feed, carriage return, space.\<close>
  "is_space c = (c \<in> {CHR 0x09, CHR 0x0A, CHR 0x0B, CHR 0x0C, CHR 0x0D, CHR '' ''})"

definition to_lower :: "char \<Rightarrow> char" where
  "to_lower c =
     (case map_of (zip ''ABCDEFGHIJKLMNOPQRSTUVWXYZ'' ''abcdefghijklmnopqrstuvwxyz'') c of
        Some l \<Rightarrow> l | None \<Rightarrow> c)"

function collapse_seps :: "string \<Rightarrow> string" where
  \<comment> \<open>\<open>s.replace(/[\s/]+/g, "_")\<close>\<close>
  "collapse_seps [] = []"
| "collapse_seps (c # s) =
     (if is_space c \<or> c = CHR ''/''
      then CHR ''_'' # collapse_seps (dropWhile (\<lambda>d. is_space d \<or> d = CHR ''/'') s)
      else c # collapse_seps s)"
  by pat_completeness auto
termination
  by (relation "measure length") (auto simp: length_dropWhile_le less_Suc_eq_le)

definition slug :: "string \<Rightarrow> string" where
  \<comment> \<open>\<open>label.toLowerCase().replace(/[\s/]+/g, "_").replace(/[^a-z0-9_]/g, "")\<close>\<close>
  "slug l =
     filter (\<lambda>c. c \<in> set ''abcdefghijklmnopqrstuvwxyz0123456789_'')
       (collapse_seps (map to_lower l))"

fun at_a_glance :: "json list \<Rightarrow> listing \<Rightarrow> listing option" where
  \<comment> \<open>\<open>for (const fact of atAGlance)\<close>. \<open>None\<close>: a \<open>TypeError\<close> (an entry that is null or
      undefined, or a truthy label that is not a string and so has no \<open>toLowerCase\<close>).\<close>
  "at_a_glance [] r = Some r"
| "at_a_glance (entry # facts) r =
     (if nullish entry then None
      else (let factLabel = get entry ''factLabel''; factValue = get entry ''factValue'' in
            if truthy factLabel \<and> truthy factValue \<and> factValue \<noteq> JStr ''No Data''
            then (case factLabel of
                    JStr l \<Rightarrow>
                      (let key = slug l in
                       at_a_glance facts
                         (if \<not> truthy (field r (''fact_'' @ key))
                          then set_field (''fact_'' @ key) factValue r else r))
                  | _ \<Rightarrow> None)
            else at_a_glance facts r))"

definition reso_facts :: "json \<Rightarrow> listing \<Rightarrow> listing option" where
  \<comment> \<open>The section \<open>Facts & Features from resoFacts\<close>.\<close>
  "reso_facts property r =
     (let resoFacts = get property ''resoFacts'' in
      if truthy resoFacts
      then (let r1 = reso_pass resoFacts r in
            case get resoFacts ''atAGlanceFacts'' of
              JArr atAGlance \<Rightarrow> at_a_glance atAGlance r1
            | _ \<Rightarrow> Some r1)
      else Some r)"

subsection \<open>Histories\<close>

fun history_rows :: "(json \<Rightarrow> json) \<Rightarrow> json list \<Rightarrow> json list option" where
  \<comment> \<open>\<open>history.map(row)\<close>; reading a property of a null or undefined entry is a
      \<open>TypeError\<close>.\<close>
  "history_rows row [] = Some []"
| "history_rows row (entry # es) =
     (if nullish entry then None
      else (case history_rows row es of None \<Rightarrow> None | Some rs \<Rightarrow> Some (row entry # rs)))"

definition price_row :: "json \<Rightarrow> json" where
  "price_row entry =
     JArr [or_null (get entry ''date''), or_null (get entry ''event''),
           money (get entry ''price''), or_null (get entry ''source'')]"

definition tax_row :: "json \<Rightarrow> json" where
  "tax_row entry =
     JArr [or_null (get entry ''time''), money (get entry ''taxPaid''),
           money (get entry ''value'')]"

definition history_of :: "(json \<Rightarrow> json) \<Rightarrow> json \<Rightarrow> json option" where
  \<comment> \<open>\<open>Array.isArray(h) && h.length > 0 ? h.map(row) : null\<close>\<close>
  "history_of row h =
     (case h of
        JArr es \<Rightarrow> (if length es > 0 then map_option JArr (history_rows row es) else Some JNull)
      | _ \<Rightarrow> Some JNull)"

subsection \<open>The whole of Tier 1\<close>

definition extractFromNextData :: "(string \<Rightarrow> json option) \<Rightarrow> json \<Rightarrow> listing option" where
  \<comment> \<open>\<open>None\<close> is the source's \<open>null\<close>: no property entity, or an exception caught by the
      function's own \<open>try\<close>.\<close>
  "extractFromNextData parse nextData =
     (let property = find_property parse nextData in
      if \<not> truthy property then None
      else (let r1 = set_field ''address'' (address_of property) [];
                r2 = set_field ''price'' (money (get property ''price'')) r1;
                r3 = set_field ''zestimate'' (money (get property ''zestimate'')) r2;
                r4 = set_field ''rent_zestimate'' (money (get property ''rentZestimate'')) r3;
                r5 = set_field ''estimated_sales_range'' (estimated_sales_range property) r4;
                r6 = basic_facts property r5
            in case reso_facts property r6 of
                 None \<Rightarrow> None
               | Some r7 \<Rightarrow>
                   (case history_of price_row (get property ''priceHistory'') of
                      None \<Rightarrow> None
                    | Some ph \<Rightarrow>
                        (case history_of tax_row (get property ''taxHistory'') of
                           None \<Rightarrow> None
                         | Some th \<Rightarrow>
                             Some (set_field ''public_tax_history'' th
                                     (set_field ''price_history'' ph r7))))))"

section \<open>Listing worker: extraction from the rendered page (Tier 2)\<close>

text \<open>
  The last \<open>page.evaluate\<close> of the worker queries the rendered document. The answers of
  the document (the text of the selected elements, the matches of the regular expressions in
  the body text, the list items visited by the two fact loops) are the input of the model;
  what the callback does with them is the source's.
\<close>

record dom_snapshot =
  h1_text :: "string option"
    \<comment> \<open>\<open>textContent\<close> of \<open>document.querySelector("h1")\<close>\<close>
  bdp_address_text :: "string option"
    \<comment> \<open>\<open>textContent\<close> of the element \<open>[data-testid="bdp-property-address"]\<close>\<close>
  price_el_text :: "string option"
  price_match :: "string option"
  zest_match :: "string option"
  range_match :: "string option"
  rent_match :: "string option"
  fact_items :: "string list"
    \<comment> \<open>\<open>textContent\<close> of the \<open>li\<close> elements in the order both loops visit them\<close>
  price_rows :: "(string \<times> string \<times> string) list"
  tax_rows :: "(string \<times> string \<times> string) list"

definition trim :: "string \<Rightarrow> string" where
  "trim s = rev (dropWhile is_space (rev (dropWhile is_space s)))"

definition opt_str :: "string option \<Rightarrow> json" where
  "opt_str x = (case x of Some s \<Rightarrow> JStr s | None \<Rightarrow> JNull)"

definition dom_address :: "dom_snapshot \<Rightarrow> json" where
  \<comment> \<open>\<open>const addressEl = document.querySelector("h1") ?? document.querySelector(...);
      result.address = addressEl?.textContent?.trim() ?? null;\<close>\<close>
  "dom_address d =
     (case h1_text d of
        Some t \<Rightarrow> JStr (trim t)
      | None \<Rightarrow> (case bdp_address_text d of Some t \<Rightarrow> JStr (trim t) | None \<Rightarrow> JNull))"

definition dom_fact :: "string list \<times> listing \<Rightarrow> string \<Rightarrow> string list \<times> listing" where
  \<comment> \<open>The body of both \<open>forEach((li) => ...)\<close> loops; the state is \<open>(seenFacts, result)\<close>.\<close>
  "dom_fact st li =
     (case st of (seenFacts, result) \<Rightarrow>
        (let text = trim li in
         if CHR '':'' \<in> set text \<and> text \<notin> set seenFacts
         then (let colonIdx = length (takeWhile (\<lambda>c. c \<noteq> CHR '':'') text);
                   rawKey = trim (take colonIdx text);
                   val = trim (drop (colonIdx + 1) text)
               in if rawKey \<noteq> [] \<and> val \<noteq> [] \<and> length rawKey < 60
                  then (seenFacts @ [text], set_field (''fact_'' @ slug rawKey) (JStr val) result)
                  else (seenFacts @ [text], result))
         else (seenFacts, result)))"

definition dom_rows :: "(string \<times> string \<times> string) list \<Rightarrow> json" where
  \<comment> \<open>\<open>rows.length > 0 ? rows : null\<close>, each row the trimmed text of its first three cells\<close>
  "dom_rows rs =
     (if length rs > 0
      then JArr (map (\<lambda>(a, b, c). JArr [JStr (trim a), JStr (trim b), JStr (trim c)]) rs)
      else JNull)"

definition extractFromDom :: "dom_snapshot \<Rightarrow> listing" where
  "extractFromDom d =
     (let r1 = set_field ''address'' (dom_address d) [];
          r2 = set_field ''price''
                 (case price_el_text d of Some t \<Rightarrow> JStr (trim t)
                  | None \<Rightarrow> opt_str (price_match d)) r1;
          r3 = set_field ''zestimate''
                 (case zest_match d of Some m \<Rightarrow> JStr (''$'' @ m) | None \<Rightarrow> JNull) r2;
          r4 = set_field ''estimated_sales_range''
                 (case range_match d of Some m \<Rightarrow> JStr (trim m) | None \<Rightarrow> JNull) r3;
          r5 = set_field ''rent_zestimate''
                 (case rent_match d of Some m \<Rightarrow> JStr (''$'' @ m) | None \<Rightarrow> JNull) r4;
          r6 = snd (foldl dom_fact ([], r5) (fact_items d));
          r7 = set_field ''price_history'' (dom_rows (price_rows d)) r6
      in set_field ''public_tax_history'' (dom_rows (tax_rows d)) r7)"

section \<open>Listing worker\<close>

text \<open>
  A session is identified by a number; the session provider and the page are the
  environment of a worker: whether \<open>createSteelSession\<close> and each page operation resolve or
  reject, and what the page returns. \<open>releaseSteelSession\<close> does not raise (its contract).
  The events of a run are recorded in a log.
\<close>

datatype event = Acquire nat | Release nat | Invoke string

record listing_env =
  create_ok :: bool
  nav_ok :: bool
  next_data :: "json option"
    \<comment> \<open>The first \<open>page.evaluate\<close>: \<open>None\<close> when it rejects, else the parsed
        \<open>__NEXT_DATA__\<close> or \<open>JNull\<close>.\<close>
  scroll_ok :: bool
  dom :: "dom_snapshot option"
    \<comment> \<open>The last \<open>page.evaluate\<close>: \<open>None\<close> when it rejects.\<close>
  failure_message :: string
    \<comment> \<open>\<open>err.message\<close> of whatever the environment raises.\<close>

datatype outcome = Returned listing | Threw string

definition tier1 :: "(string \<Rightarrow> json option) \<Rightarrow> json \<Rightarrow> string \<Rightarrow> listing option" where
  \<comment> \<open>\<open>if (nextDataResult) { const extracted = extractFromNextData(nextDataResult);
      if (extracted && extracted.address) { extracted.link = url; return extracted; } }\<close>\<close>
  "tier1 parse nextDataResult u =
     (if truthy nextDataResult
      then (case extractFromNextData parse nextDataResult of
              Some extracted \<Rightarrow>
                (if truthy (field extracted ''address'')
                 then Some (set_field ''link'' (JStr u) extracted) else None)
            | None \<Rightarrow> None)
      else None)"

definition scrape_body :: "(string \<Rightarrow> json option) \<Rightarrow> listing_env \<Rightarrow> string \<Rightarrow> outcome" where
  \<comment> \<open>The \<open>try\<close> block after the session exists.\<close>
  "scrape_body parse env u =
     (if \<not> nav_ok env then Threw (failure_message env)
      else case next_data env of
        None \<Rightarrow> Threw (failure_message env)
      | Some nextDataResult \<Rightarrow>
          (case tier1 parse nextDataResult u of
             Some extracted \<Rightarrow> Returned extracted
           | None \<Rightarrow>
               (if \<not> scroll_ok env then Threw (failure_message env)
                else case dom env of
                  None \<Rightarrow> Threw (failure_message env)
                | Some d \<Rightarrow> Returned (set_field ''link'' (JStr u) (extractFromDom d)))))"

definition scrapeListingPage ::
  "(string \<Rightarrow> json option) \<Rightarrow> listing_env \<Rightarrow> nat \<Rightarrow> string \<Rightarrow> outcome \<times> event list" where
  \<comment> \<open>\<open>sid\<close> is the session the provider hands out if it hands out one.\<close>
  "scrapeListingPage parse env sid u =
     (if \<not> create_ok env then (Threw (failure_message env), [])
      else (scrape_body parse env u, [Acquire sid, Release sid]))"

section \<open>Batch scheduler\<close>

definition MAX_LISTINGS :: nat where
  "MAX_LISTINGS = 100"

definition BATCH_CONCURRENCY :: nat where
  "BATCH_CONCURRENCY = 5"

datatype result_error =
    Skipped_limit_reached
      \<comment> \<open>the message \<^verbatim>\<open>Skipped - limit reached\<close> (with a dash)\<close>
  | Skipped_limit_reached_mid_scrape
      \<comment> \<open>the message \<^verbatim>\<open>Skipped - limit reached mid-scrape\<close>\<close>
  | Error_message string

record ScrapeResult =
  sr_url :: string
  sr_success :: bool
  sr_data :: "listing option"
  sr_error :: "result_error option"

text \<open>
  The workers of a chunk run concurrently. JavaScript runs each callback of
  \<open>chunk.map(async ...)\<close> without interruption up to its first \<open>await\<close>, which is
  \<open>await scrapeListingPage(url, logger)\<close>: so all the checks before dispatch of one chunk read
  the counter and the signal as they stand when the chunk starts, and the workers then
  complete one at a time, in an order the environment chooses. The cancellation signal is
  an input as well: its value wherever the code reads it.
\<close>

record worker_run =
  page_env :: listing_env
  aborted_after :: bool
    \<comment> \<open>\<open>abortController.signal.aborted\<close> as read after the worker's scrape\<close>

record batch_env =
  aborted_at_chunk :: "nat \<Rightarrow> bool"
    \<comment> \<open>the signal when the chunk starting at index \<open>i\<close> starts\<close>
  completion_order :: "nat \<Rightarrow> nat list"
    \<comment> \<open>for the chunk starting at \<open>i\<close>: positions in the chunk, in order of completion\<close>
  worker :: "nat \<Rightarrow> worker_run"
    \<comment> \<open>by index in \<open>urls\<close>\<close>

record batch_state =
  completed :: nat
  allResults :: "ScrapeResult list"
  next_sid :: nat
  event_log :: "event list"

datatype slot = Pending string nat | Settled ScrapeResult

definition dispatch :: "nat \<Rightarrow> bool \<Rightarrow> nat \<Rightarrow> nat \<Rightarrow> nat \<times> string \<Rightarrow> slot" where
  \<comment> \<open>The callback up to its first \<open>await\<close>.\<close>
  "dispatch maxCount aborted completed_now i p =
     (case p of (idx, u) \<Rightarrow>
        if completed_now \<ge> maxCount \<or> aborted
        then Settled \<lparr>sr_url = u, sr_success = False, sr_data = None,
                      sr_error = Some Skipped_limit_reached\<rparr>
        else Pending u (i + idx))"

fun invocations :: "slot list \<Rightarrow> event list" where
  "invocations [] = []"
| "invocations (Pending u w # ss) = Invoke u # invocations ss"
| "invocations (Settled r # ss) = invocations ss"

definition finish_worker ::
  "(string \<Rightarrow> json option) \<Rightarrow> nat \<Rightarrow> worker_run \<Rightarrow> string \<Rightarrow> batch_state
     \<Rightarrow> batch_state \<times> ScrapeResult" where
  \<comment> \<open>The callback from the completion of \<open>scrapeListingPage\<close> on.\<close>
  "finish_worker parse maxCount w u st =
     (case scrapeListingPage parse (page_env w) (next_sid st) u of (out, evs) \<Rightarrow>
        (let st1 = st\<lparr>next_sid := Suc (next_sid st), event_log := event_log st @ evs\<rparr> in
         case out of
           Returned d \<Rightarrow>
             (if completed st \<ge> maxCount \<or> aborted_after w
              then (st1, \<lparr>sr_url = u, sr_success = False, sr_data = None,
                          sr_error = Some Skipped_limit_reached_mid_scrape\<rparr>)
              else (st1\<lparr>completed := completed st + 1\<rparr>,
                    \<lparr>sr_url = u, sr_success = True, sr_data = Some d, sr_error = None\<rparr>))
         | Threw msg \<Rightarrow>
             (st1, \<lparr>sr_url = u, sr_success = False, sr_data = None,
                    sr_error = Some (Error_message msg)\<rparr>)))"

definition complete_at ::
  "(string \<Rightarrow> json option) \<Rightarrow> batch_env \<Rightarrow> nat \<Rightarrow> batch_state \<times> slot list \<Rightarrow> nat
     \<Rightarrow> batch_state \<times> slot list" where
  \<comment> \<open>The worker at position \<open>idx\<close> of the chunk completes, if it is still running.\<close>
  "complete_at parse env maxCount p idx =
     (case p of (st, slots) \<Rightarrow>
        if idx < length slots
        then (case slots ! idx of
                Pending u w \<Rightarrow>
                  (case finish_worker parse maxCount (worker env w) u st of
                     (st', r) \<Rightarrow> (st', slots[idx := Settled r]))
              | Settled r \<Rightarrow> (st, slots))
        else (st, slots))"

fun settled_value :: "slot \<Rightarrow> ScrapeResult" where
  \<comment> \<open>The loop over \<open>Promise.allSettled\<close>. The callback catches whatever its worker raises,
      so every promise is fulfilled and every slot is settled when the loop runs (lemma
      \<open>all_workers_settle\<close>); the second equation stands for the source's branch for a
      rejected promise, which reports the address \<open>unknown\<close>.\<close>
  "settled_value (Settled r) = r"
| "settled_value (Pending u w) =
     \<lparr>sr_url = ''unknown'', sr_success = False, sr_data = None,
      sr_error = Some (Error_message ''rejected'')\<rparr>"

definition run_chunk ::
  "(string \<Rightarrow> json option) \<Rightarrow> batch_env \<Rightarrow> nat \<Rightarrow> string list \<Rightarrow> nat \<Rightarrow> batch_state
     \<Rightarrow> batch_state" where
  \<comment> \<open>One chunk: dispatch in input order, completions in the environment's order (whoever
      is left completes in input order), results in input order.\<close>
  "run_chunk parse env maxCount urls i st =
     (let chunk = take BATCH_CONCURRENCY (drop i urls);
          slots = map (dispatch maxCount (aborted_at_chunk env i) (completed st) i)
                    (zip [0..<length chunk] chunk);
          st1 = st\<lparr>event_log := event_log st @ invocations slots\<rparr>;
          fin = foldl (complete_at parse env maxCount) (st1, slots)
                  (completion_order env i @ [0..<length slots])
      in (fst fin)\<lparr>allResults := allResults (fst fin) @ map settled_value (snd fin)\<rparr>)"

function batch_loop ::
  "(string \<Rightarrow> json option) \<Rightarrow> batch_env \<Rightarrow> nat \<Rightarrow> string list \<Rightarrow> nat \<Rightarrow> batch_state
     \<Rightarrow> batch_state" where
  \<comment> \<open>\<open>for (let i = 0; i < urls.length; i += BATCH_CONCURRENCY)\<close>\<close>
  "batch_loop parse env maxCount urls i st =
     (if i < length urls
      then (if completed st \<ge> maxCount \<or> aborted_at_chunk env i then st
            else batch_loop parse env maxCount urls (i + BATCH_CONCURRENCY)
                   (run_chunk parse env maxCount urls i st))
      else st)"
  by pat_completeness auto
termination
  by (relation "measure (\<lambda>(parse, env, maxCount, urls, i, st). length urls - i)")
     (auto simp: BATCH_CONCURRENCY_def)

declare batch_loop.simps [simp del]

definition scrapeListingsBatch ::
  "(string \<Rightarrow> json option) \<Rightarrow> batch_env \<Rightarrow> string list \<Rightarrow> nat \<Rightarrow> nat \<Rightarrow> nat \<Rightarrow> event list
     \<Rightarrow> batch_state" where
  \<comment> \<open>The last two arguments are the state of the session provider and the log so far.\<close>
  "scrapeListingsBatch parse env urls currentCount maxCount sid0 log0 =
     batch_loop parse env maxCount urls 0
       \<lparr>completed = currentCount, allResults = [], next_sid = sid0, event_log = log0\<rparr>"

section \<open>Job orchestrator\<close>

datatype job_status = Running | Completed | Error

record orch_state =
  globalCount :: nat
  rows :: "listing list"
    \<comment> \<open>the arguments of \<open>schema.addRow\<close>, in order\<close>
  mainSession :: "nat option"
  pageNum :: nat
  provider_next :: nat
    \<comment> \<open>the number of the next session the provider hands out\<close>
  events :: "event list"

record iteration_env =
  aborted_at_top :: bool
    \<comment> \<open>the signal as read at the top of the loop body\<close>
  page_view :: "page_snapshot option"
    \<comment> \<open>what the results page shows; \<open>None\<close> when a \<open>page.evaluate\<close> rejects\<close>
  batch :: batch_env
  create_next_ok :: bool
  next_page :: next_page_env

record orch_env =
  first_create_ok :: bool
  first_goto_ok :: bool
  iteration :: "nat \<Rightarrow> iteration_env"
    \<comment> \<open>by page number\<close>

fun consume :: "ScrapeResult list \<Rightarrow> nat \<times> listing list \<Rightarrow> nat \<times> listing list" where
  \<comment> \<open>\<open>for (const result of results)\<close>; the state is \<open>(globalCount, rows)\<close>.\<close>
  "consume [] s = s"
| "consume (result # rest) s =
     (let s1 = (case sr_data result of
                  Some d \<Rightarrow> (if sr_success result then (fst s + 1, snd s @ [d]) else s)
                | None \<Rightarrow> s)
      in if fst s1 \<ge> MAX_LISTINGS then s1 else consume rest s1)"

datatype step = Continue | Break | Raise

definition orch_body ::
  "(string \<Rightarrow> json option) \<Rightarrow> orch_env \<Rightarrow> string \<Rightarrow> orch_state \<Rightarrow> step \<times> orch_state" where
  \<comment> \<open>One pass through the body of \<open>while (globalCount < MAX_LISTINGS)\<close>.\<close>
  "orch_body parse env searchUrl st =
     (let ie = iteration env (pageNum st) in
      if aborted_at_top ie then (Break, st)
      else case mainSession st of
        None \<Rightarrow> (Raise, st)
      | Some m \<Rightarrow>
         (case page_view ie of
            None \<Rightarrow> (Raise, st)
          | Some snap \<Rightarrow>
             (let listingUrls = extractListingUrls snap in
              if length listingUrls = 0 then (Break, st)
              else
               (let remaining = MAX_LISTINGS - globalCount st;
                    toScrape = take remaining listingUrls;
                    b = scrapeListingsBatch parse (batch ie) toScrape (globalCount st)
                          MAX_LISTINGS (provider_next st) (events st);
                    s = consume (allResults b) (globalCount st, rows st);
                    st1 = st\<lparr>globalCount := fst s, rows := snd s,
                              provider_next := next_sid b, events := event_log b\<rparr>
                in if globalCount st1 \<ge> MAX_LISTINGS then (Break, st1)
                   else
                    (let st2 = st1\<lparr>events := events st1 @ [Release m], mainSession := None\<rparr>;
                         nextPageUrl = buildNextPageUrl searchUrl (pageNum st2 + 1)
                     in if \<not> create_next_ok ie then (Raise, st2)
                        else
                         (let st3 = st2\<lparr>mainSession := Some (provider_next st2),
                                         events := events st2 @ [Acquire (provider_next st2)],
                                         provider_next := Suc (provider_next st2)\<rparr>;
                              hasNext = fst (goToNextPage (next_page ie) nextPageUrl)
                          in if \<not> hasNext then (Break, st3)
                             else (Continue, st3\<lparr>pageNum := pageNum st3 + 1\<rparr>)))))))"

datatype loop_end = Ended | Raised | Unfinished

fun orch_loop ::
  "nat \<Rightarrow> (string \<Rightarrow> json option) \<Rightarrow> orch_env \<Rightarrow> string \<Rightarrow> orch_state
     \<Rightarrow> loop_end \<times> orch_state" where
  \<comment> \<open>The \<open>while\<close> loop, for at most the given number of passes.\<close>
  "orch_loop fuel parse env searchUrl st =
     (if globalCount st < MAX_LISTINGS
      then (case fuel of
              0 \<Rightarrow> (Unfinished, st)
            | Suc fuel' \<Rightarrow>
                (case orch_body parse env searchUrl st of
                   (Continue, st') \<Rightarrow> orch_loop fuel' parse env searchUrl st'
                 | (Break, st') \<Rightarrow> (Ended, st')
                 | (Raise, st') \<Rightarrow> (Raised, st')))
      else (Ended, st))"

declare orch_loop.simps [simp del]

definition release_main :: "orch_state \<Rightarrow> orch_state" where
  \<comment> \<open>\<open>finally { if (mainSession) await releaseSteelSession(mainSession); }\<close>\<close>
  "release_main st =
     (case mainSession st of
        Some m \<Rightarrow> st\<lparr>events := events st @ [Release m]\<rparr>
      | None \<Rightarrow> st)"

definition orchestrate ::
  "nat \<Rightarrow> (string \<Rightarrow> json option) \<Rightarrow> orch_env \<Rightarrow> string \<Rightarrow> job_status \<times> orch_state" where
  \<comment> \<open>The status is \<open>Running\<close> when the loop has not ended within the given number of
      passes; the state is then the one reached so far.\<close>
  "orchestrate fuel parse env searchUrl =
     (let st0 = \<lparr>globalCount = 0, rows = [], mainSession = None, pageNum = 1,
                 provider_next = 0, events = []\<rparr>
      in if \<not> first_create_ok env then (Error, release_main st0)
         else
          (let st1 = st0\<lparr>mainSession := Some 0, events := [Acquire 0], provider_next := 1\<rparr>
           in if \<not> first_goto_ok env then (Error, release_main st1)
              else case orch_loop fuel parse env searchUrl st1 of
                (Ended, st) \<Rightarrow> (Completed, release_main st)
              | (Raised, st) \<Rightarrow> (Error, release_main st)
              | (Unfinished, st) \<Rightarrow> (Running, st)))"

section \<open>What the properties are stated with\<close>

subsection \<open>Readings of a log and of a result list\<close>

definition reloads :: "page_action list \<Rightarrow> nat" where
  "reloads acts = length (filter (\<lambda>a. a = Reload) acts)"

fun acquired :: "event list \<Rightarrow> nat list" where
  "acquired [] = []"
| "acquired (Acquire i # es) = i # acquired es"
| "acquired (e # es) = acquired es"

fun released :: "event list \<Rightarrow> nat list" where
  "released [] = []"
| "released (Release i # es) = i # released es"
| "released (e # es) = released es"

fun invoked :: "event list \<Rightarrow> string list" where
  \<comment> \<open>The addresses \<open>scrapeListingPage\<close> was called with, in order.\<close>
  "invoked [] = []"
| "invoked (Invoke u # es) = u # invoked es"
| "invoked (e # es) = invoked es"

definition successes :: "ScrapeResult list \<Rightarrow> nat" where
  "successes rs = length (filter sr_success rs)"

definition released_once :: "event list \<Rightarrow> bool" where
  \<comment> \<open>No session is acquired twice, none is released twice, and the sessions released are
      the sessions acquired.\<close>
  "released_once es =
     (distinct (acquired es) \<and> distinct (released es) \<and> set (released es) = set (acquired es))"

subsection \<open>Invariants\<close>

definition sessions_inv :: "nat option \<Rightarrow> nat \<Rightarrow> event list \<Rightarrow> bool" where
  \<comment> \<open>While \<open>main\<close> is the session held for navigation and \<open>n\<close> the next session of the
      provider: every session but \<open>main\<close> has been released, once.\<close>
  "sessions_inv main n es =
     (distinct (acquired es) \<and> distinct (released es) \<and> (\<forall>i\<in>set (acquired es). i < n)
      \<and> set (released es) = set (acquired es) - set_option main
      \<and> set_option main \<subseteq> set (acquired es))"

definition orch_sessions :: "orch_state \<Rightarrow> bool" where
  "orch_sessions st = sessions_inv (mainSession st) (provider_next st) (events st)"

definition counted :: "orch_state \<Rightarrow> bool" where
  "counted st = (globalCount st \<le> MAX_LISTINGS \<and> length (rows st) = globalCount st)"



subsection \<open>Concrete environments\<close>

definition no_parse :: "string \<Rightarrow> json option" where
  "no_parse s = None"

definition empty_page :: page_snapshot where
  "empty_page = \<lparr>embedded = \<lparr>next_data_text = None, script_texts = []\<rparr>, dom_links = []\<rparr>"

definition one_listing_page :: page_snapshot where
  "one_listing_page =
     \<lparr>embedded = \<lparr>next_data_text = None, script_texts = []\<rparr>,
      dom_links = [''https://www.zillow.com/homedetails/a/1_zpid/'']\<rparr>"

definition two_listing_page :: page_snapshot where
  "two_listing_page =
     \<lparr>embedded = \<lparr>next_data_text = None, script_texts = []\<rparr>,
      dom_links = [''https://www.zillow.com/homedetails/a/1_zpid/'',
                   ''https://www.zillow.com/homedetails/b/2_zpid/'']\<rparr>"

definition demo_dom :: dom_snapshot where
  "demo_dom = \<lparr>h1_text = Some ''12 Main St'', bdp_address_text = None, price_el_text = None,
               price_match = None, zest_match = None, range_match = None, rent_match = None,
               fact_items = [], price_rows = [], tax_rows = []\<rparr>"

definition ok_page :: listing_env where
  \<comment> \<open>A listing page without structured payload whose document shows an address.\<close>
  "ok_page = \<lparr>create_ok = True, nav_ok = True, next_data = Some JNull, scroll_ok = True,
              dom = Some demo_dom, failure_message = ''Navigation timeout''\<rparr>"

definition calm :: batch_env where
  \<comment> \<open>No cancellation, completion in input order, every worker on \<open>ok_page\<close>.\<close>
  "calm = \<lparr>aborted_at_chunk = (\<lambda>i. False), completion_order = (\<lambda>i. []),
           worker = (\<lambda>i. \<lparr>page_env = ok_page, aborted_after = False\<rparr>)\<rparr>"


definition last_page :: next_page_env where
  \<comment> \<open>A next page that shows no listing, before and after the reload.\<close>
  "last_page = \<lparr>goto_ok = True, first_view = Some empty_page, title_ok = True,
                reload_ok = True, second_view = Some empty_page\<rparr>"

definition one_page_site :: orch_env where
  "one_page_site =
     \<lparr>first_create_ok = True, first_goto_ok = True,
      iteration = (\<lambda>n. \<lparr>aborted_at_top = False, page_view = Some two_listing_page, batch = calm,
                          create_next_ok = True, next_page = last_page\<rparr>)\<rparr>"






definition query_twins :: page_snapshot where
  \<comment> \<open>Two anchors to one listing page that differ in the query string only.\<close>
  "query_twins =
     \<lparr>embedded = \<lparr>next_data_text = None, script_texts = []\<rparr>,
      dom_links = [''https://www.zillow.com/homedetails/abc/?a=1'',
                   ''https://www.zillow.com/homedetails/abc/?a=2'']\<rparr>"

subsection \<open>First-seen selection, as the specification words it\<close>

fun first_seen :: "string list \<Rightarrow> string list \<Rightarrow> string list" where
  \<comment> \<open>The addresses whose key is neither in \<open>seen\<close> nor the key of an earlier address, in
      their order.\<close>
  "first_seen seen [] = []"
| "first_seen seen (u # us) =
     (if dedup_key u \<in> set seen then first_seen seen us
      else u # first_seen (seen @ [dedup_key u]) us)"

definition mixed_page :: page_snapshot where
  \<comment> \<open>A results page whose payload names the listings 111, 222 and 111 again, and whose
      anchors name 222 (with a query string) and 333.\<close>
  "mixed_page =
     \<lparr>embedded =
        \<lparr>next_data_text =
           Some (''{'' @ [CHR 0x22] @ ''a'' @ [CHR 0x22] @ '':'' @ [CHR 0x22]
                 @ ''/homedetails/12-Main-St/111_zpid/'' @ [CHR 0x22] @ '','' @ [CHR 0x22] @ ''b''
                 @ [CHR 0x22] @ '':'' @ [CHR 0x22] @ ''/homedetails/9-Elm-Rd/222_zpid/''
                 @ [CHR 0x22] @ '','' @ [CHR 0x22] @ ''c'' @ [CHR 0x22] @ '':'' @ [CHR 0x22]
                 @ ''/homedetails/twelve-main/111_zpid/'' @ [CHR 0x22] @ ''}''),
         script_texts = []\<rparr>,
      dom_links = [''https://www.zillow.com/homedetails/9-Elm-Rd/222_zpid/?view=map'',
                   ''https://www.zillow.com/homedetails/4-Oak-Ct/333_zpid/'']\<rparr>"



fun is_settled :: "slot \<Rightarrow> bool" where
  "is_settled (Settled r) = True"
| "is_settled (Pending u w) = False"

subsection \<open>The estimated range, as the specification words it\<close>




section \<open>Evaluating the library functions\<close>



section \<open>Properties of the next-page address\<close>









section \<open>Properties of the page advance\<close>

text \<open>
  Claim C9. \<open>goToNextPage\<close> navigates and runs the discovery. When the first discovery finds
  a reference it returns true without reloading. When it finds none (and the page answers),
  it reloads once and runs the discovery again: it returns true if the retry finds a
  reference and false if the retry finds none as well. No call reloads more than once, and
  it returns true only if the first discovery or the retry found a reference.
\<close>

theorem goToNextPage_single_retry:
  "(goto_ok env \<and> first_view env = Some v1 \<and> extractListingUrls v1 \<noteq> []
      \<longrightarrow> goToNextPage env u = (True, [Goto u, Discover]))
   \<and> (goto_ok env \<and> first_view env = Some v1 \<and> extractListingUrls v1 = []
        \<and> title_ok env \<and> reload_ok env \<and> second_view env = Some v2
      \<longrightarrow> goToNextPage env u
            = (extractListingUrls v2 \<noteq> [], [Goto u, Discover, Reload, Discover]))
   \<and> reloads (snd (goToNextPage env u)) \<le> 1
   \<and> (fst (goToNextPage env u) \<longrightarrow>
        goto_ok env \<and>
        (case first_view env of None \<Rightarrow> False
         | Some a \<Rightarrow> extractListingUrls a \<noteq> [] \<or>
             (title_ok env \<and> reload_ok env \<and>
              (case second_view env of None \<Rightarrow> False | Some b \<Rightarrow> extractListingUrls b \<noteq> []))))"
  by (auto simp: goToNextPage_def reloads_def Let_def split: option.splits)

lemma empty_page_urls: "extractListingUrls empty_page = []" 
  by (simp add: extractListingUrls_def empty_page_def extractUrlsFromPageData_def)
lemma one_listing_page_urls: "extractListingUrls one_listing_page = [''https://www.zillow.com/homedetails/a/1_zpid/'']" 
  by code_simp

theorem goToNextPage_single_retry_witness:
  "goToNextPage \<lparr>goto_ok = True, first_view = Some empty_page, title_ok = True, reload_ok = True,
                  second_view = Some one_listing_page\<rparr> ''https://x/search/2_p/''
     = (True, [Goto ''https://x/search/2_p/'', Discover, Reload, Discover])
   \<and> goToNextPage \<lparr>goto_ok = True, first_view = Some empty_page, title_ok = True, reload_ok = True,
                  second_view = Some empty_page\<rparr> ''https://x/search/2_p/''
     = (False, [Goto ''https://x/search/2_p/'', Discover, Reload, Discover])
   \<and> goToNextPage \<lparr>goto_ok = True, first_view = Some one_listing_page, title_ok = True, reload_ok = True,
                  second_view = None\<rparr> ''https://x/search/2_p/''
     = (True, [Goto ''https://x/search/2_p/'', Discover])"
  using goToNextPage_single_retry[where env="\<lparr>goto_ok = True, first_view = Some empty_page, title_ok = True, reload_ok = True,
                  second_view = Some one_listing_page\<rparr>" and ?v1.0=empty_page and ?v2.0=one_listing_page and u="''https://x/search/2_p/''"]
     goToNextPage_single_retry[where env="\<lparr>goto_ok = True, first_view = Some empty_page, title_ok = True, reload_ok = True,
                  second_view = Some empty_page\<rparr>" and ?v1.0=empty_page and ?v2.0=empty_page and u="''https://x/search/2_p/''"]
     goToNextPage_single_retry[where env="\<lparr>goto_ok = True, first_view = Some one_listing_page, title_ok = True, reload_ok = True,
                  second_view = None\<rparr>" and ?v1.0=one_listing_page and ?v2.0=empty_page and u="''https://x/search/2_p/''"]
  by (simp add: empty_page_urls one_listing_page_urls)

section \<open>Properties of the batch scheduler\<close>

lemma acquired_append [simp]: "acquired (xs @ ys) = acquired xs @ acquired ys"
  by (induction xs rule: acquired.induct) simp_all
lemma released_append [simp]: "released (xs @ ys) = released xs @ released ys"
  by (induction xs rule: released.induct) simp_all
lemma invoked_append [simp]: "invoked (xs @ ys) = invoked xs @ invoked ys"
  by (induction xs rule: invoked.induct) simp_all
lemma successes_append [simp]: "successes (xs @ ys) = successes xs + successes ys"
  by (simp add: successes_def)

lemma scrape_events:
  "snd (scrapeListingPage parse env sid u) = [] \<or>
   snd (scrapeListingPage parse env sid u) = [Acquire sid, Release sid]"
  by (simp add: scrapeListingPage_def)

lemma scrape_invoked [simp]: "invoked (snd (scrapeListingPage parse env sid u)) = []"
  using scrape_events[of parse env sid u] by auto

lemma finish_worker_fields:
  "next_sid (fst (finish_worker parse maxCount w u st)) = Suc (next_sid st)"
  "event_log (fst (finish_worker parse maxCount w u st))
     = event_log st @ snd (scrapeListingPage parse (page_env w) (next_sid st) u)"
  "allResults (fst (finish_worker parse maxCount w u st)) = allResults st"
  "completed (fst (finish_worker parse maxCount w u st))
     = completed st + (if sr_success (snd (finish_worker parse maxCount w u st)) then 1 else 0)"
  "sr_error (snd (finish_worker parse maxCount w u st)) \<noteq> Some Skipped_limit_reached"
  "completed st \<le> maxCount \<Longrightarrow> completed (fst (finish_worker parse maxCount w u st)) \<le> maxCount"
  by (auto simp: finish_worker_def Let_def split: prod.splits outcome.splits)




lemma foldl_inv:
  assumes "P s" "\<And>s x. P s \<Longrightarrow> P (f s x)"
  shows "P (foldl f s xs)"
  using assms(1) by (induction xs arbitrary: s) (simp_all add: assms(2))



lemma invocations_sessions [simp]:
  "acquired (invocations slots) = []" "released (invocations slots) = []"
  by (induction slots rule: invocations.induct) simp_all



lemma sessions_inv_worker:
  "sessions_inv m n es \<Longrightarrow> sessions_inv m (Suc n) (es @ [Acquire n, Release n])"
  by (cases m) (auto simp: sessions_inv_def)

lemma sessions_inv_skip: "sessions_inv m n es \<Longrightarrow> sessions_inv m (Suc n) es"
  by (auto simp: sessions_inv_def less_Suc_eq)

lemma sessions_inv_quiet:
  "sessions_inv m n es \<Longrightarrow> acquired evs = [] \<Longrightarrow> released evs = [] \<Longrightarrow> sessions_inv m n (es @ evs)"
  by (simp add: sessions_inv_def)

lemma sessions_inv_release:
  "sessions_inv (Some m) n es \<Longrightarrow> sessions_inv None n (es @ [Release m])"
  by (auto simp: sessions_inv_def)

lemma sessions_inv_acquire:
  "sessions_inv None n es \<Longrightarrow> sessions_inv (Some n) (Suc n) (es @ [Acquire n])"
  by (auto simp: sessions_inv_def less_Suc_eq)

lemma sessions_inv_done: "sessions_inv None n es \<Longrightarrow> released_once es"
  by (simp add: sessions_inv_def released_once_def)

lemma finish_worker_sessions:
  assumes "sessions_inv m (next_sid st) (event_log st)"
  shows "sessions_inv m (next_sid (fst (finish_worker parse maxCount w u st)))
           (event_log (fst (finish_worker parse maxCount w u st)))"
  using scrape_events[of parse "page_env w" "next_sid st" u]
        sessions_inv_worker[OF assms] sessions_inv_skip[OF assms]
  by (auto simp: finish_worker_fields(1,2))

lemma complete_at_sessions:
  assumes "sessions_inv m (next_sid (fst p)) (event_log (fst p))"
  shows "sessions_inv m (next_sid (fst (complete_at parse env maxCount p idx)))
           (event_log (fst (complete_at parse env maxCount p idx)))"
proof -
  obtain st slots where p: "p = (st, slots)" by (cases p)
  show ?thesis
  proof (cases "idx < length slots")
    case False
    then show ?thesis using assms p by (simp add: complete_at_def)
  next
    case True
    show ?thesis
    proof (cases "slots ! idx")
      case (Settled r)
      then show ?thesis using assms p True by (simp add: complete_at_def)
    next
      case (Pending u w)
      have c: "fst (complete_at parse env maxCount p idx)
               = fst (finish_worker parse maxCount (worker env w) u st)"
        using p True Pending by (simp add: complete_at_def split: prod.splits)
      show ?thesis unfolding c using finish_worker_sessions assms p by simp
    qed
  qed
qed

lemma run_chunk_sessions:
  assumes "sessions_inv m (next_sid st) (event_log st)"
  shows "sessions_inv m (next_sid (run_chunk parse env maxCount urls i st))
           (event_log (run_chunk parse env maxCount urls i st))"
proof -
  define chunk where "chunk = take BATCH_CONCURRENCY (drop i urls)"
  define slots where "slots = map (dispatch maxCount (aborted_at_chunk env i) (completed st) i)
                    (zip [0..<length chunk] chunk)"
  define st1 where "st1 = st\<lparr>event_log := event_log st @ invocations slots\<rparr>"
  define fin where "fin = foldl (complete_at parse env maxCount) (st1, slots)
                  (completion_order env i @ [0..<length slots])"
  have s1: "sessions_inv m (next_sid (fst (st1, slots))) (event_log (fst (st1, slots)))"
    using sessions_inv_quiet[OF assms, of "invocations slots"] by (simp add: st1_def)
  have s2: "sessions_inv m (next_sid (fst fin)) (event_log (fst fin))"
    unfolding fin_def
    by (rule foldl_inv[where P="\<lambda>p. sessions_inv m (next_sid (fst p)) (event_log (fst p))"])
       (simp_all only: s1 complete_at_sessions)
  have r: "run_chunk parse env maxCount urls i st
           = (fst fin)\<lparr>allResults := allResults (fst fin) @ map settled_value (snd fin)\<rparr>"
    unfolding run_chunk_def Let_def chunk_def[symmetric] slots_def[symmetric]
      st1_def[symmetric] fin_def[symmetric] by simp
  show ?thesis unfolding r using s2 by simp
qed

lemma batch_loop_sessions:
  "sessions_inv m (next_sid st) (event_log st) \<Longrightarrow>
   sessions_inv m (next_sid (batch_loop parse env maxCount urls i st))
     (event_log (batch_loop parse env maxCount urls i st))"
proof (induction parse env maxCount urls i st rule: batch_loop.induct)
  case (1 parse env maxCount urls i st)
  show ?case
  proof (cases "i < length urls \<and> \<not> (completed st \<ge> maxCount \<or> aborted_at_chunk env i)")
    case False
    then show ?thesis using "1.prems" by (auto simp: batch_loop.simps[of parse env maxCount urls i st])
  next
    case True
    have step: "batch_loop parse env maxCount urls i st
                = batch_loop parse env maxCount urls (i + BATCH_CONCURRENCY)
                    (run_chunk parse env maxCount urls i st)"
      using True by (simp add: batch_loop.simps[of parse env maxCount urls i st])
    from "1.IH"[OF _ _ run_chunk_sessions[OF "1.prems"]] True
    show ?thesis unfolding step by simp
  qed
qed

lemma batch_sessions:
  "sessions_inv m sid0 log0 \<Longrightarrow>
   sessions_inv m (next_sid (scrapeListingsBatch parse env urls c maxCount sid0 log0))
     (event_log (scrapeListingsBatch parse env urls c maxCount sid0 log0))"
  unfolding scrapeListingsBatch_def
  by (rule batch_loop_sessions) simp

lemma complete_at_length [simp]:
  "length (snd (complete_at parse env maxCount p idx)) = length (snd p)"
  by (cases p) (auto simp: complete_at_def split: slot.splits prod.splits)

lemma complete_at_settles:
  "idx < length (snd p) \<Longrightarrow> is_settled (snd (complete_at parse env maxCount p idx) ! idx)"
  by (cases p) (auto simp: complete_at_def split: slot.splits prod.splits)

lemma complete_at_stays:
  "j < length (snd p) \<Longrightarrow> is_settled (snd p ! j)
   \<Longrightarrow> is_settled (snd (complete_at parse env maxCount p idx) ! j)"
  by (cases p) (auto simp: complete_at_def nth_list_update split: slot.splits prod.splits)

lemma foldl_complete_length [simp]:
  "length (snd (foldl (complete_at parse env maxCount) p xs)) = length (snd p)"
  by (induction xs arbitrary: p) simp_all

lemma foldl_complete_stays:
  "j < length (snd p) \<Longrightarrow> is_settled (snd p ! j)
   \<Longrightarrow> is_settled (snd (foldl (complete_at parse env maxCount) p xs) ! j)"
  by (induction xs arbitrary: p) (simp_all add: complete_at_stays)

lemma foldl_complete_settles:
  "j \<in> set xs \<Longrightarrow> j < length (snd p)
   \<Longrightarrow> is_settled (snd (foldl (complete_at parse env maxCount) p xs) ! j)"
proof (induction xs arbitrary: p)
  case Nil
  then show ?case by simp
next
  case (Cons x xs)
  show ?case
  proof (cases "j = x")
    case True
    have "is_settled (snd (complete_at parse env maxCount p x) ! x)"
      using complete_at_settles Cons.prems(2) True by simp
    then show ?thesis
      using foldl_complete_stays[of x "complete_at parse env maxCount p x"] Cons.prems(2) True
      by simp
  next
    case False
    with Cons.prems(1) have "j \<in> set xs" by simp
    from Cons.IH[OF this, of "complete_at parse env maxCount p x"] Cons.prems(2)
    show ?thesis by simp
  qed
qed

lemma all_workers_settle:
  "list_all is_settled
     (snd (foldl (complete_at parse env maxCount) (st, slots) (order @ [0..<length slots])))"
proof -
  have "\<forall>j < length slots.
          is_settled (snd (foldl (complete_at parse env maxCount) (st, slots)
                             (order @ [0..<length slots])) ! j)"
    using foldl_complete_settles[of _ "order @ [0..<length slots]" "(st, slots)"] by simp
  then show ?thesis
    by (simp add: list_all_length)
qed






section \<open>Properties of the orchestrator\<close>

lemma consume_cap:
  "fst s < MAX_LISTINGS \<Longrightarrow> length (snd s) = fst s \<Longrightarrow>
   fst (consume rs s) \<le> MAX_LISTINGS \<and> length (snd (consume rs s)) = fst (consume rs s)"
proof (induction rs arbitrary: s)
  case Nil
  then show ?case by simp
next
  case (Cons r rs)
  define s1 where "s1 = (case sr_data r of
                  Some d \<Rightarrow> (if sr_success r then (fst s + 1, snd s @ [d]) else s)
                | None \<Rightarrow> s)"
  have a: "fst s1 \<le> MAX_LISTINGS" "length (snd s1) = fst s1"
    using Cons.prems unfolding s1_def by (auto split: option.splits)
  have c: "consume (r # rs) s = (if fst s1 \<ge> MAX_LISTINGS then s1 else consume rs s1)"
    unfolding s1_def by (simp add: Let_def)
  show ?case
  proof (cases "fst s1 \<ge> MAX_LISTINGS")
    case True
    with a c show ?thesis by simp
  next
    case False
    then have "fst s1 < MAX_LISTINGS" by simp
    from Cons.IH[OF this a(2)] c False show ?thesis by simp
  qed
qed

lemma consume_stops_at_cap:
  "consume [\<lparr>sr_url = u1, sr_success = True, sr_data = Some d1, sr_error = None\<rparr>,
            \<lparr>sr_url = u2, sr_success = True, sr_data = Some d2, sr_error = None\<rparr>,
            \<lparr>sr_url = u3, sr_success = True, sr_data = Some d3, sr_error = None\<rparr>] (98, rs)
   = (100, rs @ [d1, d2])"
  by (simp add: MAX_LISTINGS_def)

lemma orch_body_counted:
  assumes "globalCount st < MAX_LISTINGS" "length (rows st) = globalCount st"
  shows "counted (snd (orch_body parse env searchUrl st))"
proof -
  have st: "counted st" using assms by (simp add: counted_def)
  show ?thesis
  proof (cases "aborted_at_top (iteration env (pageNum st))")
    case True
    then show ?thesis using st by (simp add: orch_body_def Let_def)
  next
    case na: False
    show ?thesis
    proof (cases "mainSession st")
      case None
      then show ?thesis using st na by (simp add: orch_body_def Let_def)
    next
      case (Some m)
      show ?thesis
      proof (cases "page_view (iteration env (pageNum st))")
        case None
        then show ?thesis using st na Some by (simp add: orch_body_def Let_def)
      next
        case (Some snap)
        note sn = this
        show ?thesis
        proof (cases "extractListingUrls snap = []")
          case True
          then show ?thesis using st na \<open>mainSession st = Some m\<close> sn by (simp add: orch_body_def Let_def)
        next
          case False
          define b where "b = scrapeListingsBatch parse (batch (iteration env (pageNum st)))
                 (take (MAX_LISTINGS - globalCount st) (extractListingUrls snap)) (globalCount st)
                          MAX_LISTINGS (provider_next st) (events st)"
          define s where "s = consume (allResults b) (globalCount st, rows st)"
          have cs: "fst s \<le> MAX_LISTINGS" "length (snd s) = fst s"
            using consume_cap[of "(globalCount st, rows st)" "allResults b"] assms
            unfolding s_def by simp_all
          show ?thesis
            using na \<open>mainSession st = Some m\<close> sn False cs
            unfolding orch_body_def Let_def b_def[symmetric] s_def[symmetric]
            by (simp add: counted_def b_def[symmetric] s_def[symmetric])
        qed
      qed
    qed
  qed
qed

lemma orch_loop_counted:
  "counted st \<Longrightarrow> counted (snd (orch_loop fuel parse env searchUrl st))"
proof (induction fuel arbitrary: st)
  case 0
  then show ?case by (simp add: orch_loop.simps)
next
  case (Suc fuel)
  show ?case
  proof (cases "globalCount st < MAX_LISTINGS")
    case False
    then show ?thesis using Suc.prems by (simp add: orch_loop.simps)
  next
    case True
    obtain x st' where b: "orch_body parse env searchUrl st = (x, st')" by (cases "orch_body parse env searchUrl st")
    have c: "counted st'" using orch_body_counted[OF True, of parse env searchUrl] Suc.prems b
      by (simp add: counted_def)
    show ?thesis
      using True b c Suc.IH[OF c]
      by (cases x) (simp_all add: orch_loop.simps[of "Suc fuel"])
  qed
qed

lemma release_main_counted: "counted (release_main st) = counted st"
  by (simp add: release_main_def counted_def split: option.splits)

text \<open>
  Claim C1. In every run of the orchestrator, and at every pass of its loop, the number of
  records handed to \<open>schema.addRow\<close> equals the counter, and the counter does not exceed
  \<open>MAX_LISTINGS\<close>: whatever the pages list, whatever the workers return and in whatever
  order they complete.
\<close>

theorem orchestrate_never_exceeds_cap:
  "globalCount (snd (orchestrate fuel parse env searchUrl)) \<le> MAX_LISTINGS
   \<and> length (rows (snd (orchestrate fuel parse env searchUrl)))
       = globalCount (snd (orchestrate fuel parse env searchUrl))"
proof -
  define st1 where "st1 = \<lparr>globalCount = 0, rows = [], mainSession = Some 0, pageNum = 1,
                 provider_next = 1, events = [Acquire 0]\<rparr>"
  have c1: "counted st1" by (simp add: st1_def counted_def)
  have "counted (snd (orchestrate fuel parse env searchUrl))"
    using orch_loop_counted[OF c1, of fuel parse env searchUrl]
    unfolding orchestrate_def Let_def
    by (cases "orch_loop fuel parse env searchUrl st1"; cases "fst (orch_loop fuel parse env searchUrl st1)")
       (auto simp: st1_def counted_def release_main_def split: option.splits)
  then show ?thesis by (simp add: counted_def)
qed

theorem orchestrate_never_exceeds_cap_witness:
  "globalCount (snd (orchestrate 3 no_parse one_page_site ''https://x/search/'')) \<le> MAX_LISTINGS
   \<and> length (rows (snd (orchestrate 3 no_parse one_page_site ''https://x/search/'')))
       = globalCount (snd (orchestrate 3 no_parse one_page_site ''https://x/search/''))
   \<and> globalCount (snd (orchestrate 3 no_parse one_page_site ''https://x/search/'')) = 2"
proof -
  have e: "globalCount (snd (orchestrate 3 no_parse one_page_site ''https://x/search/'')) = 2"
    by code_simp
  show ?thesis
    using orchestrate_never_exceeds_cap[of 3 no_parse one_page_site "''https://x/search/''"] e
    by simp
qed

lemma orch_body_sessions:
  assumes "orch_sessions st"
  shows "orch_sessions (snd (orch_body parse env searchUrl st))"
proof (cases "aborted_at_top (iteration env (pageNum st))")
  case True
  then show ?thesis using assms by (simp add: orch_body_def Let_def)
next
  case na: False
  show ?thesis
  proof (cases "mainSession st")
    case None
    then show ?thesis using assms na by (simp add: orch_body_def Let_def)
  next
    case (Some m)
    note ms = this
    show ?thesis
    proof (cases "page_view (iteration env (pageNum st))")
      case None
      then show ?thesis using assms na ms by (simp add: orch_body_def Let_def)
    next
      case (Some snap)
      note sn = this
      show ?thesis
      proof (cases "extractListingUrls snap = []")
        case True
        then show ?thesis using assms na ms sn by (simp add: orch_body_def Let_def)
      next
        case False
        define b where "b = scrapeListingsBatch parse (batch (iteration env (pageNum st)))
               (take (MAX_LISTINGS - globalCount st) (extractListingUrls snap)) (globalCount st)
                        MAX_LISTINGS (provider_next st) (events st)"
        define s where "s = consume (allResults b) (globalCount st, rows st)"
        have b1: "sessions_inv (Some m) (next_sid b) (event_log b)"
          using batch_sessions[of "Some m" "provider_next st" "events st"] assms ms
          unfolding b_def orch_sessions_def by simp
        note b2 = sessions_inv_release[OF b1]
        note b3 = sessions_inv_acquire[OF b2]
        show ?thesis
          using na ms sn False b1 b2 b3
          unfolding orch_body_def Let_def b_def[symmetric] s_def[symmetric]
          by (simp add: orch_sessions_def b_def[symmetric] s_def[symmetric])
      qed
    qed
  qed
qed

lemma orch_loop_sessions:
  "orch_sessions st \<Longrightarrow> orch_sessions (snd (orch_loop fuel parse env searchUrl st))"
proof (induction fuel arbitrary: st)
  case 0
  then show ?case by (simp add: orch_loop.simps)
next
  case (Suc fuel)
  show ?case
  proof (cases "globalCount st < MAX_LISTINGS")
    case False
    then show ?thesis using Suc.prems by (simp add: orch_loop.simps)
  next
    case True
    obtain x st' where b: "orch_body parse env searchUrl st = (x, st')"
      by (cases "orch_body parse env searchUrl st")
    have c: "orch_sessions st'" using orch_body_sessions[OF Suc.prems, of parse env searchUrl] b
      by simp
    show ?thesis
      using True b c Suc.IH[OF c]
      by (cases x) (simp_all add: orch_loop.simps[of "Suc fuel"])
  qed
qed

lemma release_main_done: "orch_sessions st \<Longrightarrow> released_once (events (release_main st))"
proof (cases "mainSession st")
  case None
  assume "orch_sessions st"
  then show ?thesis using None sessions_inv_done[of "provider_next st" "events st"]
    by (simp add: release_main_def orch_sessions_def)
next
  case (Some m)
  assume "orch_sessions st"
  then have "sessions_inv (Some m) (provider_next st) (events st)"
    using Some by (simp add: orch_sessions_def)
  from sessions_inv_done[OF sessions_inv_release[OF this]] Some
  show ?thesis by (simp add: release_main_def)
qed

lemma released_at_most_once:
  "orch_sessions st \<Longrightarrow> distinct (released (events st)) \<and> set (released (events st)) \<subseteq> set (acquired (events st))
     \<and> distinct (acquired (events st))"
  by (auto simp: orch_sessions_def sessions_inv_def)

text \<open>
  Claim C4. A worker releases the session it acquired exactly once, whether it returns a
  record or raises, and acquires none when the provider fails. When a run of the
  orchestrator has ended (by the cap, by exhaustion of the pages, by cancellation or by an
  exception), every session acquired in the run, by the orchestrator or by a worker, has
  been released exactly once; and at no moment of a run has a session been released twice.
\<close>

theorem sessions_released_exactly_once:
  "released_once (snd (scrapeListingPage parse wenv sid u))
   \<and> (fst (orchestrate fuel parse env searchUrl) \<noteq> Running
        \<longrightarrow> released_once (events (snd (orchestrate fuel parse env searchUrl))))
   \<and> distinct (released (events (snd (orchestrate fuel parse env searchUrl))))"
proof -
  have w: "released_once (snd (scrapeListingPage parse wenv sid u))"
    using scrape_events[of parse wenv sid u] by (auto simp: released_once_def)
  define st0 where "st0 = \<lparr>globalCount = 0, rows = [], mainSession = None, pageNum = 1,
                 provider_next = 0, events = []\<rparr>"
  define st1 where "st1 = \<lparr>globalCount = 0, rows = [], mainSession = Some 0, pageNum = 1,
                 provider_next = 1, events = [Acquire 0]\<rparr>"
  have c0: "orch_sessions st0" by (simp add: st0_def orch_sessions_def sessions_inv_def)
  have c1: "orch_sessions st1" by (simp add: st1_def orch_sessions_def sessions_inv_def)
  note l = orch_loop_sessions[OF c1, of fuel parse env searchUrl]
  have o: "orchestrate fuel parse env searchUrl =
      (if \<not> first_create_ok env then (Error, release_main st0)
       else if \<not> first_goto_ok env then (Error, release_main st1)
       else case orch_loop fuel parse env searchUrl st1 of
                (Ended, st) \<Rightarrow> (Completed, release_main st)
              | (Raised, st) \<Rightarrow> (Error, release_main st)
              | (Unfinished, st) \<Rightarrow> (Running, st))"
    by (simp add: orchestrate_def st0_def st1_def Let_def)
  have a: "fst (orchestrate fuel parse env searchUrl) \<noteq> Running
        \<longrightarrow> released_once (events (snd (orchestrate fuel parse env searchUrl)))"
    unfolding o using release_main_done[OF c0] release_main_done[OF c1] release_main_done[OF l]
    by (cases "orch_loop fuel parse env searchUrl st1"; cases "fst (orch_loop fuel parse env searchUrl st1)")
       auto
  have b: "distinct (released (events (snd (orchestrate fuel parse env searchUrl))))"
    unfolding o using release_main_done[OF c0] release_main_done[OF c1] release_main_done[OF l]
      released_at_most_once[OF l]
    by (cases "orch_loop fuel parse env searchUrl st1"; cases "fst (orch_loop fuel parse env searchUrl st1)")
       (auto simp: released_once_def)
  show ?thesis using w a b by simp
qed

theorem sessions_released_exactly_once_witness:
  "released_once (snd (scrapeListingPage no_parse ok_page 7 ''u1''))
   \<and> fst (orchestrate 3 no_parse one_page_site ''https://x/search/'') = Completed
   \<and> released_once (events (snd (orchestrate 3 no_parse one_page_site ''https://x/search/'')))
   \<and> acquired (events (snd (orchestrate 3 no_parse one_page_site ''https://x/search/'')))
       = [0, 1, 2, 3]"
proof -
  have e: "fst (orchestrate 3 no_parse one_page_site ''https://x/search/'') = Completed"
    by code_simp
  have a: "acquired (events (snd (orchestrate 3 no_parse one_page_site ''https://x/search/'')))
           = [0, 1, 2, 3]"
    by code_simp
  show ?thesis
    using sessions_released_exactly_once[of no_parse ok_page 7 "''u1''" 3 one_page_site
            "''https://x/search/''"] e a
    by simp
qed

section \<open>Properties of the listing worker\<close>

lemma field_set_field [simp]:
  "field (set_field k v r) k' = (if k' = k then v else field r k')"
  by (simp add: field_def set_field_def update_conv')










section \<open>Properties of Tier 1\<close>



















section \<open>Properties of reference discovery\<close>

lemma foldl_addUrl:
  "foldl addUrl (seen, acc) us
   = (seen @ map dedup_key (first_seen seen us), acc @ map strip_query (first_seen seen us))"
  by (induction us arbitrary: seen acc) (simp_all add: addUrl_def Let_def)

lemma first_seen_distinct:
  "distinct seen \<Longrightarrow> distinct (seen @ map dedup_key (first_seen seen us))"
proof (induction us arbitrary: seen)
  case Nil
  then show ?case by simp
next
  case (Cons u us)
  show ?case
  proof (cases "dedup_key u \<in> set seen")
    case True
    then show ?thesis using Cons by simp
  next
    case False
    with Cons.prems have "distinct (seen @ [dedup_key u])" by simp
    from Cons.IH[OF this] False show ?thesis by simp
  qed
qed

lemma first_seen_append:
  "first_seen seen (us @ vs) = first_seen seen us @ first_seen (seen @ map dedup_key (first_seen seen us)) vs"
  by (induction us arbitrary: seen) simp_all

lemma extractListingUrls_first_seen:
  "extractListingUrls snap
     = map strip_query (first_seen [] (extractUrlsFromPageData (embedded snap) @ dom_links snap))
   \<and> distinct (map dedup_key (first_seen [] (extractUrlsFromPageData (embedded snap) @ dom_links snap)))"
proof (rule conjI)
  show "extractListingUrls snap
     = map strip_query (first_seen [] (extractUrlsFromPageData (embedded snap) @ dom_links snap))"
    by (simp add: extractListingUrls_def Let_def foldl_addUrl first_seen_append)
  show "distinct (map dedup_key
          (first_seen [] (extractUrlsFromPageData (embedded snap) @ dom_links snap)))"
    using first_seen_distinct[of "[]" "extractUrlsFromPageData (embedded snap) @ dom_links snap"]
    by simp
qed

lemma mixed_page_urls:
  "extractListingUrls mixed_page
   = [''https://www.zillow.com/homedetails/12-Main-St/111_zpid/'',
      ''https://www.zillow.com/homedetails/9-Elm-Rd/222_zpid/'',
      ''https://www.zillow.com/homedetails/4-Oak-Ct/333_zpid/'']"
  by code_simp

text \<open>
  Claim C5. The claim is that no two entries of the list returned by \<open>extractListingUrls\<close>
  have the same dedup key. The code computes the key of an address before it removes the
  query string and stores the address after: for two anchors without zpid that differ in
  the query string only, it returns the same address twice. (By
  \<open>extractListingUrls_first_seen\<close> the rest of the claim holds: the list is the first-seen
  selection, by key, of the structured-data matches followed by the anchors, each without
  its query string.)
\<close>

theorem extractListingUrls_duplicate:
  "extractListingUrls query_twins
   = [''https://www.zillow.com/homedetails/abc/'', ''https://www.zillow.com/homedetails/abc/'']
   \<and> \<not> distinct (map dedup_key (extractListingUrls query_twins))"
  by code_simp

end
